theory Spec2Isabelle
  imports Complex_Main
begin

section \<open>Errors and array-like inputs\<close>

text \<open>
  The notebooks are Python; an exception is a value of \<open>error\<close>, and a function that can
  raise returns \<open>error + 'a\<close> with \<open>Inl\<close> for the exception. Floating-point numbers are
  idealised as reals and complex floats as complex numbers.
\<close>

datatype error = ValueError string | TypeError string | IndexError string

text \<open>
  What a caller can hand to \<open>np.asarray\<close>: a Python sequence of numbers, or an array that
  already has a dtype.
\<close>

datatype scalar = PyInt int | PyFloat real | PyComplex complex

datatype array_like =
    Sequence "scalar list"
  | Ndarray_float64 "real list"
  | Ndarray_complex128 "complex list"

text \<open>Python's \<open>float(v)\<close>: defined on ints and floats, a TypeError on a complex.\<close>

fun py_float :: "scalar \<Rightarrow> error + real" where
  "py_float (PyInt i) = Inr (of_int i)"
| "py_float (PyFloat r) = Inr r"
| "py_float (PyComplex z) =
     Inl (TypeError (''float() argument must be a string or a real number, not ''
                      @ CHR 0x27 # ''complex'' @ [CHR 0x27]))"

fun float_all :: "scalar list \<Rightarrow> error + real list" where
  "float_all [] = Inr []"
| "float_all (v # vs) =
     (case py_float v of
        Inl e \<Rightarrow> Inl e
      | Inr r \<Rightarrow> (case float_all vs of Inl e \<Rightarrow> Inl e | Inr rs \<Rightarrow> Inr (r # rs)))"

text \<open>
  \<open>np.asarray(x, dtype=float)\<close>. A sequence is converted element by element; a float
  array is returned as it is; a complex array is cast, which keeps the real parts and
  only warns (ComplexWarning).
\<close>

fun asarray_float :: "array_like \<Rightarrow> error + real list" where
  "asarray_float (Sequence vs) = float_all vs"
| "asarray_float (Ndarray_float64 xs) = Inr xs"
| "asarray_float (Ndarray_complex128 zs) = Inr (map Re zs)"

section \<open>Lecture 13: the slow discrete Fourier transform\<close>

definition arange :: "nat \<Rightarrow> nat list" where
  "arange N = [0..<N]"

text \<open>\<open>np.exp(-2j * np.pi * k * n / N)\<close> with \<open>k\<close> a column and \<open>n\<close> a row: an N by N matrix.\<close>

definition dft_matrix :: "nat \<Rightarrow> complex list list" where
  "dft_matrix N =
     (let n = arange N; k = n
      in map (\<lambda>kk. map (\<lambda>nn. exp (- 2 * \<i> * complex_of_real pi * of_nat kk * of_nat nn / of_nat N)) n) k)"

text \<open>\<open>np.dot(M, x)\<close> for a complex matrix and a real vector.\<close>

definition dot :: "complex list list \<Rightarrow> real list \<Rightarrow> complex list" where
  "dot M x = map (\<lambda>row. sum_list (map2 (\<lambda>m v. m * complex_of_real v) row x)) M"

definition DFT_slow :: "array_like \<Rightarrow> error + complex list" where
  "DFT_slow x =
     (case asarray_float x of
        Inl e \<Rightarrow> Inl e
      | Inr xf \<Rightarrow>
          (let N = length xf;
               M = dft_matrix N
           in Inr (dot M xf)))"

text \<open>The textbook transform of a complex signal, for comparison.\<close>

definition dft :: "complex list \<Rightarrow> complex list" where
  "dft z = map (\<lambda>k. \<Sum>n<length z. z ! n * exp (- 2 * \<i> * complex_of_real pi * of_nat k * of_nat n / of_nat (length z)))
             [0..<length z]"

section \<open>Lecture 13: the image function and the aperture\<close>

definition atomic_func :: "real \<Rightarrow> real \<Rightarrow> real" where
  "atomic_func x y =
     (let param = 64
      in (1 + sin (4 * (x + y) * 2 * pi / param)) * (1 + sin (2 * (x - 2 * y) * 2 * pi / param)) / 4)"

definition aperture :: "real \<Rightarrow> real \<Rightarrow> real \<Rightarrow> real \<Rightarrow> real \<Rightarrow> bool" where
  "aperture X Y xoffset yoffset sz = ((X - xoffset)\<^sup>2 + (Y - yoffset)\<^sup>2 > sz\<^sup>2)"

text \<open>The same function applied to two arrays of one shape, as numpy broadcasts it.\<close>

definition aperture_grid ::
  "real list list \<Rightarrow> real list list \<Rightarrow> real \<Rightarrow> real \<Rightarrow> real \<Rightarrow> bool list list" where
  "aperture_grid X Y xoffset yoffset sz =
     map2 (\<lambda>xr yr. map2 (\<lambda>a b. aperture a b xoffset yoffset sz) xr yr) X Y"

text \<open>\<open>np.arange(0.0, 256.0, 1.0)\<close> and \<open>np.meshgrid(x, y)\<close>: row \<open>i\<close> of \<open>X\<close> is \<open>x\<close>, row
  \<open>i\<close> of \<open>Y\<close> is filled with \<open>y[i]\<close>.\<close>

definition farange :: "nat \<Rightarrow> real list" where
  "farange n = map real [0..<n]"

definition meshgrid :: "real list \<Rightarrow> real list \<Rightarrow> real list list \<times> real list list" where
  "meshgrid x y = (map (\<lambda>_. x) y, map (\<lambda>v. map (\<lambda>_. v) x) y)"

definition grid_and :: "bool list list \<Rightarrow> bool list list \<Rightarrow> bool list list" where
  "grid_and A B = map2 (\<lambda>ar br. map2 (\<lambda>a b. a \<and> b) ar br) A B"

text \<open>\<open>np.where(m)\<close> for a Boolean array \<open>m\<close>: the index pairs at which it holds, in row-major order.\<close>

definition np_where :: "bool list list \<Rightarrow> (nat \<times> nat) list" where
  "np_where m =
     concat (map (\<lambda>i. map (\<lambda>j. (i, j)) (filter (\<lambda>j. m ! i ! j) [0..<length (m ! i)]))
                 [0..<length m])"

text \<open>\<open>P[idx] = v\<close>: one store per index pair.\<close>

definition assign_at :: "'a list list \<Rightarrow> (nat \<times> nat) list \<Rightarrow> 'a \<Rightarrow> 'a list list" where
  "assign_at P idx v = fold (\<lambda>(i, j) A. A[i := (A ! i)[j := v]]) idx P"

text \<open>
  The masking cell, with the shifted spectrum \<open>K\<close> given (it comes from \<open>fft2\<close> and
  \<open>fftshift\<close>). \<open>np.copy\<close> gives \<open>P\<close> storage of its own, so the store changes \<open>P\<close>
  alone; in the model \<open>K\<close> is a value and the masked array is returned.
\<close>

definition mask_spectrum :: "complex list list \<Rightarrow> complex list list" where
  "mask_spectrum K =
     (let x = farange 256;
          y = farange 256;
          (X, Y) = meshgrid x y;
          P = K
      in assign_at P (np_where (grid_and (aperture_grid X Y 128 128 3) (aperture_grid X Y 150 128 3))) 0)"

section \<open>Lecture 10A: plotting Taylor approximations\<close>

subsection \<open>Calls into other code\<close>

text \<open>
  The helper calls its argument \<open>func\<close> and calls sympy on what \<open>func\<close> returns. Such a
  call returns a value, raises an exception, or does not return at all.
\<close>

datatype 'a res = Returns 'a | Raises error | Diverges

text \<open>Python's \<open>str\<close> of an integer, for the numbers that appear in error messages.\<close>

fun str_nat :: "nat \<Rightarrow> string" where
  "str_nat n = (if n < 10 then [''0123456789'' ! n]
                else str_nat (n div 10) @ [''0123456789'' ! (n mod 10)])"

declare str_nat.simps [simp del]

definition str_int :: "int \<Rightarrow> string" where
  "str_int i = (if i < 0 then CHR ''-'' # str_nat (nat (- i)) else str_nat (nat i))"

subsection \<open>The libraries the helper calls\<close>

text \<open>
  The helper works on sympy expressions through a handful of sympy operations. They are
  not part of the notebooks, so the model takes them as a parameter: a record of the
  operations over a type \<open>'e\<close> of expressions.
  \<^item> \<open>sp_Symbol name\<close> is \<open>sp.Symbol(name)\<close>;
  \<^item> \<open>sp_series e s x0 n\<close> is \<open>e.series(s, x0, n=n)\<close>, which may raise or not return,
    and \<open>sp_removeO\<close> is \<open>.removeO()\<close> on its result;
  \<^item> \<open>sp_is_Number e\<close> is \<open>isinstance(e, sp.numbers.Number)\<close> and \<open>sp_evalf\<close> is \<open>.evalf()\<close>;
  \<^item> \<open>sp_lambdify s e x\<close> is \<open>sp.lambdify(s, e, modules=['numpy'])(x)\<close>: the function
    is built and applied to the sample array; it may raise or not return, and it gives
    back an array or, for an expression without the symbol, one scalar;
  \<^item> \<open>sp_str\<close> and \<open>sp_latex\<close> are \<open>str\<close> and \<open>sp.latex\<close>.
  Creating the symbol, \<open>removeO\<close>, the \<open>isinstance\<close> test, \<open>evalf\<close> and printing are
  taken to return. The expansion point reaches sympy as the Python number it is: an int
  stays an exact integer there, a float becomes a sympy Float.
\<close>

datatype npval = Scalar real | Array "real list"

datatype number = Int_num int | Float_num real

record 'e sympy =
  sp_Symbol :: "string \<Rightarrow> 'e"
  sp_series :: "'e \<Rightarrow> 'e \<Rightarrow> number \<Rightarrow> int \<Rightarrow> 'e res"
  sp_removeO :: "'e \<Rightarrow> 'e"
  sp_is_Number :: "'e \<Rightarrow> bool"
  sp_evalf :: "'e \<Rightarrow> real"
  sp_lambdify :: "'e \<Rightarrow> 'e \<Rightarrow> real list \<Rightarrow> npval res"
  sp_str :: "'e \<Rightarrow> string"
  sp_latex :: "'e \<Rightarrow> string"

text \<open>
  The pyplot state the helper draws into: the curves of the current axes, its y limits,
  whether the grid is shown, and the transparency of the legend frame when there is a
  legend. It is shared by every cell that plots.
\<close>

datatype curve_label = Str_label string | Order_label int string

record curve =
  xdata :: "real list"
  ydata :: "real list"
  label :: curve_label
  lw :: "real option"

record figure =
  lines :: "curve list"
  ylim :: "(real \<times> real) option"
  grid :: bool
  legend_alpha :: "real option"

text \<open>\<open>np.atleast_1d\<close>, which \<open>plt.plot\<close> applies to its data: a scalar is one point.\<close>

fun atleast_1d :: "npval \<Rightarrow> real list" where
  "atleast_1d (Scalar v) = [v]"
| "atleast_1d (Array a) = a"

text \<open>
  \<open>plt.plot(x, y, label=..., lw=...)\<close> for one-dimensional data: the two sequences must
  have the same length, otherwise it raises and draws nothing.
\<close>

definition plt_plot :: "real list \<Rightarrow> npval \<Rightarrow> curve_label \<Rightarrow> real option \<Rightarrow> figure \<Rightarrow> error + figure" where
  "plt_plot x y lab w fig =
     (let ys = atleast_1d y
      in if length x \<noteq> length ys
         then Inl (ValueError (''x and y must have same first dimension, but have shapes (''
                                @ str_nat (length x) @ '',) and ('' @ str_nat (length ys) @ '',)''))
         else Inr (fig\<lparr>lines := lines fig @ [\<lparr>xdata = x, ydata = ys, label = lab, lw = w\<rparr>]\<rparr>))"

definition plt_ylim :: "real \<times> real \<Rightarrow> figure \<Rightarrow> figure" where
  "plt_ylim r fig = fig\<lparr>ylim := Some r\<rparr>"

text \<open>\<open>plt.grid()\<close> with no argument toggles the grid.\<close>

definition plt_grid :: "figure \<Rightarrow> figure" where
  "plt_grid fig = fig\<lparr>grid := \<not> grid fig\<rparr>"

text \<open>\<open>plt.legend(loc='best').get_frame().set_alpha(a)\<close>.\<close>

definition plt_legend_alpha :: "real \<Rightarrow> figure \<Rightarrow> figure" where
  "plt_legend_alpha a fig = fig\<lparr>legend_alpha := Some a\<rparr>"

text \<open>
  \<open>np.linspace(start, stop, num)\<close>: \<open>num\<close> points from \<open>start\<close> to \<open>stop\<close>, both
  included; a negative \<open>num\<close> is a ValueError.
\<close>

definition linspace :: "real \<Rightarrow> real \<Rightarrow> int \<Rightarrow> error + real list" where
  "linspace start stop num =
     (if num < 0
      then Inl (ValueError (''Number of samples, '' @ str_int num @ '', must be non-negative.''))
      else if num = 1 then Inr [start]
      else Inr (map (\<lambda>i. start + real i * ((stop - start) / real_of_int (num - 1))) [0..<nat num]))"

text \<open>
  \<open>np.zeros_like(x)\<close> has the shape and dtype of \<open>x\<close>; the sample array is float64, so
  \<open>y.fill(v)\<close> stores the value as it is.
\<close>

definition zeros_like :: "real list \<Rightarrow> real list" where
  "zeros_like x = map (\<lambda>_. 0) x"

definition fill :: "real list \<Rightarrow> real \<Rightarrow> real list" where
  "fill y v = map (\<lambda>_. v) y"

subsection \<open>The arguments\<close>

text \<open>
  What can be passed as \<open>func\<close>: a callable, which is given an expression and returns
  one, raises, or does not return; or an object that is not callable.
\<close>

datatype 'e pyobj = PyCallable "'e \<Rightarrow> 'e res" | PyScalar scalar | PyString string | PyNone

fun callable :: "'e pyobj \<Rightarrow> bool" where
  "callable (PyCallable f) = True"
| "callable _ = False"

text \<open>The name Python gives the type of an object that is not callable.\<close>

fun type_name :: "'e pyobj \<Rightarrow> string" where
  "type_name (PyCallable f) = ''function''"
| "type_name (PyScalar (PyInt i)) = ''int''"
| "type_name (PyScalar (PyFloat r)) = ''float''"
| "type_name (PyScalar (PyComplex z)) = ''complex''"
| "type_name (PyString s) = ''str''"
| "type_name PyNone = ''NoneType''"

fun call :: "'e pyobj \<Rightarrow> 'e \<Rightarrow> 'e res" where
  "call (PyCallable f) a = f a"
| "call obj a = Raises (TypeError (CHR 0x27 # type_name obj @ CHR 0x27 # '' object is not callable''))"

text \<open>
  \<open>xrange\<close> is a tuple or a list, or the array of sample points itself. The array is
  taken to be of dtype float64, as \<open>np.linspace\<close> produces it; arrays of other dtypes
  are not modelled.
\<close>

datatype seq_kind = Py_tuple | Py_list

datatype xrange_arg = Tuple_or_list seq_kind "scalar list" | Float64_array "real list"

text \<open>\<open>seq[i]\<close> on a tuple or list, for an index from the front.\<close>

definition seq_index :: "seq_kind \<Rightarrow> 'a list \<Rightarrow> nat \<Rightarrow> error + 'a" where
  "seq_index k xs i =
     (if i < length xs then Inr (xs ! i)
      else Inl (IndexError (case k of Py_tuple \<Rightarrow> ''tuple index out of range''
                                     | Py_list \<Rightarrow> ''list index out of range'')))"

subsection \<open>The helper\<close>

text \<open>
  \<^verbatim>\<open>if isinstance(xrange, (list, tuple)):
      x = np.linspace(float(xrange[0]), float(xrange[1]), npts)
  else:
      x = xrange\<close>
\<close>

definition sample_points :: "xrange_arg \<Rightarrow> int \<Rightarrow> error + real list" where
  "sample_points xrange npts =
     (case xrange of
        Tuple_or_list k r \<Rightarrow>
          (case seq_index k r 0 of Inl e \<Rightarrow> Inl e | Inr r0 \<Rightarrow>
           case py_float r0 of Inl e \<Rightarrow> Inl e | Inr a \<Rightarrow>
           case seq_index k r 1 of Inl e \<Rightarrow> Inl e | Inr r1 \<Rightarrow>
           case py_float r1 of Inl e \<Rightarrow> Inl e | Inr b \<Rightarrow>
           linspace a b npts)
      | Float64_array x \<Rightarrow> Inr x)"

text \<open>\<open>if x0 is None: x0 = x[0]\<close>, where \<open>x[0]\<close> is a float of the sample array.\<close>

definition expansion_point :: "number option \<Rightarrow> real list \<Rightarrow> error + number" where
  "expansion_point x0 x =
     (case x0 of
        None \<Rightarrow> (if x = [] then Inl (IndexError ''index 0 is out of bounds for axis 0 with size 0'')
                 else Inr (Float_num (x ! 0)))
      | Some v \<Rightarrow> Inr v)"

text \<open>
  The values the loop plots for one approximation:
  \<^verbatim>\<open>if isinstance(app, sp.numbers.Number):
      y = np.zeros_like(x)
      y.fill(app.evalf())
  else:
      fa = sp.lambdify(xs, app, modules=['numpy'])
      y = fa(x)\<close>
\<close>

definition approximation_values :: "'e sympy \<Rightarrow> 'e \<Rightarrow> 'e \<Rightarrow> real list \<Rightarrow> npval res" where
  "approximation_values S xs app x =
     (if sp_is_Number S app then Returns (Array (fill (zeros_like x) (sp_evalf S app)))
      else sp_lambdify S xs app x)"

text \<open>
  The helper returns nothing; what it does is change the figure. So a run of it ends in
  one of three ways: it returned, leaving a figure; it raised, leaving a figure (curves
  plotted before the exception stay plotted); or it did not return.
\<close>

datatype 'a run = Returned 'a figure | Raised error figure | Diverged

text \<open>The loop: one approximation and one curve per entry of \<open>orders\<close>, in order.\<close>

fun orders_loop ::
  "'e sympy \<Rightarrow> 'e \<Rightarrow> 'e \<Rightarrow> number \<Rightarrow> real list \<Rightarrow> int list \<Rightarrow> (int \<rightharpoonup> 'e) \<Rightarrow> figure
     \<Rightarrow> (int \<rightharpoonup> 'e) run" where
  "orders_loop S xs fx x0 x [] apps fig = Returned apps fig"
| "orders_loop S xs fx x0 x (order # rest) apps fig =
     (case sp_series S fx xs x0 order of
        Raises e \<Rightarrow> Raised e fig
      | Diverges \<Rightarrow> Diverged
      | Returns ser \<Rightarrow>
          (let app = sp_removeO S ser;
               apps = apps(order \<mapsto> app)
           in case approximation_values S xs app x of
                Raises e \<Rightarrow> Raised e fig
              | Diverges \<Rightarrow> Diverged
              | Returns y \<Rightarrow>
                  (let tex = filter (\<lambda>c. c \<noteq> CHR ''$'') (sp_latex S app)
                   in case plt_plot x y (Order_label order tex) None fig of
                        Inl e \<Rightarrow> Raised e fig
                      | Inr fig' \<Rightarrow> orders_loop S xs fx x0 x rest apps fig')))"

definition plot_taylor_approximations ::
  "'e sympy \<Rightarrow> 'e pyobj \<Rightarrow> number option \<Rightarrow> int list \<Rightarrow> xrange_arg \<Rightarrow> (real \<times> real) option \<Rightarrow> int
     \<Rightarrow> figure \<Rightarrow> unit run" where
  "plot_taylor_approximations S func x0 orders xrange yrange npts fig =
     (if \<not> callable func then Raised (ValueError ''func must be callable'') fig
      else
        case sample_points xrange npts of Inl e \<Rightarrow> Raised e fig | Inr x \<Rightarrow>
        case expansion_point x0 x of Inl e \<Rightarrow> Raised e fig | Inr x0 \<Rightarrow>
        (let xs = sp_Symbol S ''x'' in
         case call func xs of Raises e \<Rightarrow> Raised e fig | Diverges \<Rightarrow> Diverged | Returns fx \<Rightarrow>
         case sp_lambdify S xs fx x of Raises e \<Rightarrow> Raised e fig | Diverges \<Rightarrow> Diverged | Returns y \<Rightarrow>
         case plt_plot x y (Str_label (sp_str S fx)) (Some 2) fig of
           Inl e \<Rightarrow> Raised e fig | Inr fig1 \<Rightarrow>
         case orders_loop S xs fx x0 x orders Map.empty fig1 of
           Raised e fig2 \<Rightarrow> Raised e fig2
         | Diverged \<Rightarrow> Diverged
         | Returned apps fig2 \<Rightarrow>
             Returned () (plt_legend_alpha 0.8
                           (plt_grid (case yrange of None \<Rightarrow> fig2 | Some r \<Rightarrow> plt_ylim r fig2)))))"

subsection \<open>What a completed call is expected to have plotted\<close>

text \<open>
  An entry \<open>n\<close> of \<open>orders\<close> goes through when the series call returns and the
  approximation is either a sympy Number or evaluates to as many values as there are
  sample points.
\<close>

definition order_ok :: "'e sympy \<Rightarrow> 'e \<Rightarrow> 'e \<Rightarrow> number \<Rightarrow> real list \<Rightarrow> int \<Rightarrow> bool" where
  "order_ok S xs fx x0 x n =
     (case sp_series S fx xs x0 n of
        Returns ser \<Rightarrow>
          sp_is_Number S (sp_removeO S ser) \<or>
          (case sp_lambdify S xs (sp_removeO S ser) x of
             Returns y \<Rightarrow> length (atleast_1d y) = length x
           | Raises e \<Rightarrow> False
           | Diverges \<Rightarrow> False)
      | Raises e \<Rightarrow> False
      | Diverges \<Rightarrow> False)"

text \<open>
  The curve for the entry \<open>n\<close>: the series about the expansion point to order \<open>n\<close> with
  the order term removed, on the sample points; a Number fills a constant array. (Where
  the series call does not return a value there is no such curve; the definition then
  gives an empty one.)
\<close>

definition order_curve :: "'e sympy \<Rightarrow> 'e \<Rightarrow> 'e \<Rightarrow> number \<Rightarrow> real list \<Rightarrow> int \<Rightarrow> curve" where
  "order_curve S xs fx x0 x n =
     (case sp_series S fx xs x0 n of
        Returns ser \<Rightarrow>
          (let app = sp_removeO S ser
           in \<lparr>xdata = x,
               ydata = (if sp_is_Number S app then replicate (length x) (sp_evalf S app)
                        else case sp_lambdify S xs app x of
                               Returns y \<Rightarrow> atleast_1d y | Raises e \<Rightarrow> [] | Diverges \<Rightarrow> []),
               label = Order_label n (filter (\<lambda>c. c \<noteq> CHR ''$'') (sp_latex S app)),
               lw = None\<rparr>)
      | Raises e \<Rightarrow> \<lparr>xdata = x, ydata = [], label = Order_label n [], lw = None\<rparr>
      | Diverges \<Rightarrow> \<lparr>xdata = x, ydata = [], label = Order_label n [], lw = None\<rparr>)"

subsection \<open>A small expression library to run the helper on\<close>

text \<open>
  To run the helper on concrete arguments the operations are instantiated with a small
  library of expressions in one symbol: exact numbers, floats, the symbol, cosine, sine,
  sums, products and powers. As in sympy, arithmetic on numbers is carried out at once,
  an exact number stays exact, and the cosine or sine of a non-zero exact number stays
  a symbolic constant: it has a value but is not a number object. The library does not
  print: every expression is shown as \<open>f(x)\<close>.
\<close>

datatype expr =
    Exact real
  | Float real
  | Symbol string
  | Cos expr
  | Sin expr
  | Add expr expr
  | Mul expr expr
  | Power expr nat

text \<open>The number an expression is, if it is one, with whether it is exact.\<close>

fun num_of :: "expr \<Rightarrow> (bool \<times> real) option" where
  "num_of (Exact a) = Some (True, a)"
| "num_of (Float a) = Some (False, a)"
| "num_of e = None"

fun is_number :: "expr \<Rightarrow> bool" where
  "is_number (Exact a) = True"
| "is_number (Float a) = True"
| "is_number e = False"

definition mk_num :: "bool \<Rightarrow> real \<Rightarrow> expr" where
  "mk_num exact v = (if exact then Exact v else Float v)"

definition add_expr :: "expr \<Rightarrow> expr \<Rightarrow> expr" where
  "add_expr e1 e2 =
     (case (num_of e1, num_of e2) of
        (Some (x1, a), Some (x2, b)) \<Rightarrow> mk_num (x1 \<and> x2) (a + b)
      | (Some (x1, a), None) \<Rightarrow> (if x1 \<and> a = 0 then e2 else Add e1 e2)
      | (None, Some (x2, b)) \<Rightarrow> (if x2 \<and> b = 0 then e1 else Add e1 e2)
      | (None, None) \<Rightarrow> Add e1 e2)"

definition mul_expr :: "expr \<Rightarrow> expr \<Rightarrow> expr" where
  "mul_expr e1 e2 =
     (case (num_of e1, num_of e2) of
        (Some (x1, a), Some (x2, b)) \<Rightarrow> mk_num (x1 \<and> x2) (a * b)
      | (Some (x1, a), None) \<Rightarrow>
          (if x1 \<and> a = 0 then Exact 0 else if x1 \<and> a = 1 then e2 else Mul e1 e2)
      | (None, Some (x2, b)) \<Rightarrow>
          (if x2 \<and> b = 0 then Exact 0 else if x2 \<and> b = 1 then e1 else Mul e1 e2)
      | (None, None) \<Rightarrow> Mul e1 e2)"

definition pow_expr :: "expr \<Rightarrow> nat \<Rightarrow> expr" where
  "pow_expr e k =
     (case num_of e of
        Some (x, a) \<Rightarrow> mk_num x (a ^ k)
      | None \<Rightarrow> (if k = 0 then Exact 1 else if k = 1 then e else Power e k))"

definition cos_expr :: "expr \<Rightarrow> expr" where
  "cos_expr e =
     (case num_of e of
        Some (x, a) \<Rightarrow> (if x then (if a = 0 then Exact 1 else Cos e) else Float (cos a))
      | None \<Rightarrow> Cos e)"

definition sin_expr :: "expr \<Rightarrow> expr" where
  "sin_expr e =
     (case num_of e of
        Some (x, a) \<Rightarrow> (if x then (if a = 0 then Exact 0 else Sin e) else Float (sin a))
      | None \<Rightarrow> Sin e)"

text \<open>The value of an expression when the symbol has the value \<open>v\<close>.\<close>

fun eval_expr :: "expr \<Rightarrow> real \<Rightarrow> real" where
  "eval_expr (Exact a) v = a"
| "eval_expr (Float a) v = a"
| "eval_expr (Symbol s) v = v"
| "eval_expr (Cos e) v = cos (eval_expr e v)"
| "eval_expr (Sin e) v = sin (eval_expr e v)"
| "eval_expr (Add e1 e2) v = eval_expr e1 v + eval_expr e2 v"
| "eval_expr (Mul e1 e2) v = eval_expr e1 v * eval_expr e2 v"
| "eval_expr (Power e k) v = eval_expr e v ^ k"

fun has_symbol :: "expr \<Rightarrow> bool" where
  "has_symbol (Exact a) = False"
| "has_symbol (Float a) = False"
| "has_symbol (Symbol s) = True"
| "has_symbol (Cos e) = has_symbol e"
| "has_symbol (Sin e) = has_symbol e"
| "has_symbol (Add e1 e2) = (has_symbol e1 \<or> has_symbol e2)"
| "has_symbol (Mul e1 e2) = (has_symbol e1 \<or> has_symbol e2)"
| "has_symbol (Power e k) = has_symbol e"

text \<open>The derivative with respect to the symbol, and the substitution of an expression for it.\<close>

fun diff_expr :: "expr \<Rightarrow> expr" where
  "diff_expr (Exact a) = Exact 0"
| "diff_expr (Float a) = Exact 0"
| "diff_expr (Symbol s) = Exact 1"
| "diff_expr (Cos e) = mul_expr (mul_expr (Exact (- 1)) (sin_expr e)) (diff_expr e)"
| "diff_expr (Sin e) = mul_expr (cos_expr e) (diff_expr e)"
| "diff_expr (Add e1 e2) = add_expr (diff_expr e1) (diff_expr e2)"
| "diff_expr (Mul e1 e2) = add_expr (mul_expr (diff_expr e1) e2) (mul_expr e1 (diff_expr e2))"
| "diff_expr (Power e k) =
     (if k = 0 then Exact 0
      else mul_expr (mul_expr (Exact (real k)) (pow_expr e (k - 1))) (diff_expr e))"

fun subs_expr :: "expr \<Rightarrow> expr \<Rightarrow> expr" where
  "subs_expr (Exact a) t = Exact a"
| "subs_expr (Float a) t = Float a"
| "subs_expr (Symbol s) t = t"
| "subs_expr (Cos e) t = cos_expr (subs_expr e t)"
| "subs_expr (Sin e) t = sin_expr (subs_expr e t)"
| "subs_expr (Add e1 e2) t = add_expr (subs_expr e1 t) (subs_expr e2 t)"
| "subs_expr (Mul e1 e2) t = mul_expr (subs_expr e1 t) (subs_expr e2 t)"
| "subs_expr (Power e k) t = pow_expr (subs_expr e t) k"

text \<open>
  The Taylor polynomial: \<open>taylor d s a k m\<close> adds the \<open>m\<close> terms from power \<open>k\<close> on,
  where \<open>d\<close> is the \<open>k\<close>-th derivative, \<open>s\<close> the symbol and \<open>a\<close> the expansion point.
\<close>

fun taylor :: "expr \<Rightarrow> expr \<Rightarrow> expr \<Rightarrow> nat \<Rightarrow> nat \<Rightarrow> expr" where
  "taylor d s a k 0 = Exact 0"
| "taylor d s a k (Suc m) =
     add_expr (mul_expr (mul_expr (subs_expr d a) (Exact (1 / fact k)))
                        (pow_expr (add_expr s (mul_expr (Exact (- 1)) a)) k))
              (taylor (diff_expr d) s a (Suc k) m)"

fun number_expr :: "number \<Rightarrow> expr" where
  "number_expr (Int_num i) = Exact (of_int i)"
| "number_expr (Float_num r) = Float r"

definition mini_sympy :: "expr sympy" where
  "mini_sympy =
     \<lparr> sp_Symbol = Symbol,
       sp_series = (\<lambda>e s x0 n. Returns (taylor e s (number_expr x0) 0 (nat n))),
       sp_removeO = (\<lambda>e. e),
       sp_is_Number = is_number,
       sp_evalf = (\<lambda>e. eval_expr e 0),
       sp_lambdify = (\<lambda>s e x. Returns (if has_symbol e then Array (map (eval_expr e) x)
                                         else Scalar (eval_expr e 0))),
       sp_str = (\<lambda>e. ''f(x)''),
       sp_latex = (\<lambda>e. ''f(x)'') \<rparr>"

definition empty_figure :: figure where
  "empty_figure = \<lparr>lines = [], ylim = None, grid = False, legend_alpha = None\<rparr>"

text \<open>
  A call that completes: the function \<open>1 + x + x^2\<close>, three sample points on \<open>[0, 1]\<close>,
  the expansion point left to default to the first sample, orders 1 and 2. On an empty
  figure it is expected to leave the three curves of \<open>example_figure\<close>.
\<close>

definition example_func :: "expr pyobj" where
  "example_func = PyCallable (\<lambda>s. Returns (add_expr (Exact 1) (add_expr s (pow_expr s 2))))"

definition example_call :: "figure \<Rightarrow> unit run" where
  "example_call fig =
     plot_taylor_approximations mini_sympy example_func None [1, 2]
       (Tuple_or_list Py_tuple [PyInt 0, PyInt 1]) None 3 fig"


text \<open>
  A call on the cosine, expanded about the integer \<open>1\<close> to order 1, with the default
  \<open>xrange\<close> and \<open>npts\<close>: \<open>plot_taylor_approximations(sp.cos, 1, [1])\<close>. The approximation
  is the constant \<open>cos(1)\<close>.
\<close>

definition cos_func :: "expr pyobj" where
  "cos_func = PyCallable (\<lambda>s. Returns (cos_expr s))"

definition cos_call :: "figure \<Rightarrow> unit run" where
  "cos_call fig =
     plot_taylor_approximations mini_sympy cos_func (Some (Int_num 1)) [1]
       (Tuple_or_list Py_tuple [PyInt 0, PyInt 1]) None 200 fig"

text \<open>A callable that never returns.\<close>

definition hanging_func :: "expr pyobj" where
  "hanging_func = PyCallable (\<lambda>s. Diverges)"

section \<open>Properties of the slow transform\<close>

lemma sum_list_map2_nth:
  fixes f :: "'a \<Rightarrow> 'b \<Rightarrow> 'c::comm_monoid_add"
  shows "length xs = length ys \<Longrightarrow> sum_list (map2 f xs ys) = (\<Sum>i<length xs. f (xs ! i) (ys ! i))"
proof -
  assume len: "length xs = length ys"
  have "sum_list (map2 f xs ys) = (\<Sum>i = 0..<length (map2 f xs ys). map2 f xs ys ! i)"
    by (rule sum_list_sum_nth)
  also have "\<dots> = (\<Sum>i = 0..<length xs. f (xs ! i) (ys ! i))"
    using len by (intro sum.cong) auto
  finally show ?thesis by (simp add: atLeast0LessThan)
qed

lemma dot_dft_matrix_nth:
  assumes "k < length xs"
  shows "dot (dft_matrix (length xs)) xs ! k =
         (\<Sum>n<length xs. exp (- 2 * \<i> * complex_of_real pi * of_nat k * of_nat n / of_nat (length xs))
                          * complex_of_real (xs ! n))"
proof -
  let ?N = "length xs"
  let ?row = "map (\<lambda>nn. exp (- 2 * \<i> * complex_of_real pi * of_nat k * of_nat nn / of_nat ?N)) [0..<?N]"
  have "dot (dft_matrix ?N) xs ! k = sum_list (map2 (\<lambda>m v. m * complex_of_real v) ?row xs)"
    using assms by (simp add: dot_def dft_matrix_def arange_def Let_def)
  also have "\<dots> = (\<Sum>i<length ?row. ?row ! i * complex_of_real (xs ! i))"
    by (rule sum_list_map2_nth) simp
  also have "\<dots> = (\<Sum>n<?N. exp (- 2 * \<i> * complex_of_real pi * of_nat k * of_nat n / of_nat ?N)
                          * complex_of_real (xs ! n))"
    by (intro sum.cong) auto
  finally show ?thesis .
qed

lemma length_dot_dft_matrix: "length (dot (dft_matrix N) xs) = N"
  by (simp add: dot_def dft_matrix_def arange_def Let_def)

lemma dot_dft_matrix_eq:
  "dot (dft_matrix (length xs)) xs =
     map (\<lambda>k. \<Sum>n<length xs. complex_of_real (xs ! n) *
                 exp (- 2 * \<i> * complex_of_real pi * of_nat k * of_nat n / of_nat (length xs)))
         [0..<length xs]"
  (is "?lhs = ?rhs")
proof (rule nth_equalityI)
  show "length ?lhs = length ?rhs"
    by (simp add: length_dot_dft_matrix)
next
  fix k assume "k < length ?lhs"
  then have k: "k < length xs" by (simp add: length_dot_dft_matrix)
  show "?lhs ! k = ?rhs ! k"
    using k by (simp add: dot_dft_matrix_nth mult.commute)
qed

lemma DFT_slow_Inr:
  "asarray_float x = Inr xf \<Longrightarrow> DFT_slow x = Inr (dot (dft_matrix (length xf)) xf)"
  by (simp add: DFT_slow_def Let_def)

lemma DFT_slow_Inl:
  "asarray_float x = Inl e \<Longrightarrow> DFT_slow x = Inl e"
  by (simp add: DFT_slow_def)

lemma dot_dft_matrix_dft: "dot (dft_matrix (length xf)) xf = dft (map complex_of_real xf)"
  unfolding dot_dft_matrix_eq dft_def by (auto intro!: sum.cong)

lemma float_all_complex:
  "PyComplex z \<in> set vs \<Longrightarrow> \<exists>msg. float_all vs = Inl (TypeError msg)"
proof (induction vs)
  case Nil
  then show ?case by simp
next
  case (Cons v vs)
  show ?case
  proof (cases v)
    case (PyComplex w)
    then show ?thesis by simp
  next
    case (PyInt i)
    with Cons show ?thesis by (auto split: sum.splits)
  next
    case (PyFloat r)
    with Cons show ?thesis by (auto split: sum.splits)
  qed
qed

text \<open>
  C1. For a real-valued input of length \<open>N\<close> (anything \<open>np.asarray(x, dtype=float)\<close>
  turns into the real array \<open>xs\<close>), \<open>DFT_slow\<close> returns the matrix-vector product
  \<open>M . x\<close> with \<open>M[k][n] = exp(-2 pi i k n / N)\<close>: its \<open>k\<close>-th component is the sum
  over \<open>n\<close> from \<open>0\<close> to \<open>N - 1\<close> of \<open>x[n] * exp(-2 pi i k n / N)\<close>, the textbook
  discrete Fourier transform.
\<close>

theorem DFT_slow_textbook:
  assumes "asarray_float x = Inr xs"
  shows "DFT_slow x = Inr (dot (dft_matrix (length xs)) xs) \<and>
     (\<forall>k<length xs. \<forall>n<length xs.
        dft_matrix (length xs) ! k ! n
          = exp (- 2 * \<i> * complex_of_real pi * of_nat k * of_nat n / of_nat (length xs))) \<and>
     DFT_slow x =
       Inr (map (\<lambda>k. \<Sum>n<length xs. complex_of_real (xs ! n) *
                   exp (- 2 * \<i> * complex_of_real pi * of_nat k * of_nat n / of_nat (length xs)))
                [0..<length xs])"
proof (intro conjI)
  show "DFT_slow x = Inr (dot (dft_matrix (length xs)) xs)"
    using assms by (rule DFT_slow_Inr)
  then show "DFT_slow x =
       Inr (map (\<lambda>k. \<Sum>n<length xs. complex_of_real (xs ! n) *
                   exp (- 2 * \<i> * complex_of_real pi * of_nat k * of_nat n / of_nat (length xs)))
                [0..<length xs])"
    by (simp only: dot_dft_matrix_eq)
  show "\<forall>k<length xs. \<forall>n<length xs.
        dft_matrix (length xs) ! k ! n
          = exp (- 2 * \<i> * complex_of_real pi * of_nat k * of_nat n / of_nat (length xs))"
    by (simp add: dft_matrix_def arange_def Let_def)
qed

text \<open>The transform of the signal \<open>1, 2\<close> is \<open>3, -1\<close>.\<close>

theorem DFT_slow_textbook_witness:
  "asarray_float (Sequence [PyInt 1, PyFloat 2]) = Inr [1, 2] \<and>
   DFT_slow (Sequence [PyInt 1, PyFloat 2]) = Inr [3, - 1]"
proof -
  have a: "asarray_float (Sequence [PyInt 1, PyFloat 2]) = Inr [1, 2]" by simp
  have e: "exp (- (\<i> * complex_of_real pi)) = - 1"
    by (simp add: exp_minus)
  show ?thesis using a DFT_slow_textbook [OF a, THEN conjunct2, THEN conjunct2] e
    by (simp add: lessThan_Suc numeral_2_eq_2 upt_rec)
qed

text \<open>
  C10, as the code has it. \<open>DFT_slow\<close> coerces its argument to a real array before it
  transforms, so it never computes the transform of a complex signal: whatever it
  returns is the transform of the real array the coercion produced. A sequence that
  holds a Python complex number makes the coercion fail with a TypeError. A complex
  array does not: the coercion keeps the real parts, and the result is the transform of
  the real parts.
\<close>

theorem DFT_slow_complex_input:
  "(PyComplex z \<in> set vs \<longrightarrow> (\<exists>msg. DFT_slow (Sequence vs) = Inl (TypeError msg))) \<and>
   DFT_slow (Ndarray_complex128 zs) = Inr (dft (map (\<lambda>w. complex_of_real (Re w)) zs)) \<and>
   (DFT_slow x = Inr X \<longrightarrow> (\<exists>xf. asarray_float x = Inr xf \<and> X = dft (map complex_of_real xf)))"
proof (intro conjI impI)
  assume "PyComplex z \<in> set vs"
  from float_all_complex [OF this] obtain msg where "float_all vs = Inl (TypeError msg)" ..
  then have "DFT_slow (Sequence vs) = Inl (TypeError msg)" by (simp add: DFT_slow_Inl)
  then show "\<exists>msg. DFT_slow (Sequence vs) = Inl (TypeError msg)" ..
next
  have "asarray_float (Ndarray_complex128 zs) = Inr (map Re zs)" by simp
  from DFT_slow_Inr [OF this]
  have "DFT_slow (Ndarray_complex128 zs) = Inr (dft (map complex_of_real (map Re zs)))"
    unfolding dot_dft_matrix_dft .
  then show "DFT_slow (Ndarray_complex128 zs) = Inr (dft (map (\<lambda>w. complex_of_real (Re w)) zs))"
    by (simp add: comp_def)
next
  assume r: "DFT_slow x = Inr X"
  show "\<exists>xf. asarray_float x = Inr xf \<and> X = dft (map complex_of_real xf)"
  proof (cases "asarray_float x")
    case (Inl e)
    with r show ?thesis by (simp add: DFT_slow_Inl)
  next
    case (Inr xf)
    with r show ?thesis by (simp add: DFT_slow_Inr dot_dft_matrix_dft)
  qed
qed

theorem DFT_slow_complex_input_witness:
  "(\<exists>msg. DFT_slow (Sequence [PyFloat 1, PyComplex \<i>]) = Inl (TypeError msg)) \<and>
   DFT_slow (Ndarray_complex128 [Complex 1 2, Complex 2 (- 1)]) = Inr (dft [1, 2]) \<and>
   (\<exists>xf. asarray_float (Ndarray_complex128 [Complex 1 2]) = Inr xf \<and> [1] = dft (map complex_of_real xf))"
proof -
  have r: "DFT_slow (Ndarray_complex128 [Complex 1 2]) = Inr [1]"
    by (simp add: DFT_slow_def dft_matrix_def arange_def dot_def Let_def)
  show ?thesis
    using DFT_slow_complex_input [of \<i> "[PyFloat 1, PyComplex \<i>]" "[Complex 1 2, Complex 2 (- 1)]"
            "Ndarray_complex128 [Complex 1 2]" "[1]"] r
    by simp
qed

text \<open>
  The claim as written says the coercion fails on a complex-valued input. On the complex
  array holding the one sample \<open>1 + 2i\<close> it succeeds with the real array \<open>[1]\<close>, and
  \<open>DFT_slow\<close> returns \<open>[1]\<close>, where the transform of the complex signal is \<open>[1 + 2i]\<close>.
\<close>

theorem DFT_slow_complex_array_counterexample:
  "asarray_float (Ndarray_complex128 [Complex 1 2]) = Inr [1] \<and>
   DFT_slow (Ndarray_complex128 [Complex 1 2]) = Inr [1] \<and>
   dft [Complex 1 2] = [Complex 1 2]"
  by (simp add: DFT_slow_def dft_matrix_def arange_def dot_def dft_def Let_def)

section \<open>Properties of the image function\<close>

lemma sin_shift_turns: "sin (t + 2 * pi * of_int k) = sin t" for t :: real
  by (simp add: sin_add sin_integer_2pi cos_integer_2pi)

text \<open>
  C5. \<open>atomic_func\<close> is periodic in both dimensions: with \<open>param = 64\<close> the periods are
  \<open>Px = 32\<close> and \<open>Py = 16\<close>, both positive, and for all real \<open>x\<close> and \<open>y\<close>,
  \<open>atomic_func(x + 32, y) = atomic_func(x, y)\<close> and \<open>atomic_func(x, y + 16) = atomic_func(x, y)\<close>.
\<close>

theorem atomic_func_periodic:
  "(0::real) < 32 \<and> (0::real) < 16 \<and>
   atomic_func (x + 32) y = atomic_func x y \<and> atomic_func x (y + 16) = atomic_func x y"
proof -
  have 1: "4 * (x + 32 + y) * 2 * pi / 64 = 4 * (x + y) * 2 * pi / 64 + 2 * pi * of_int 2"
    by (simp add: field_simps)
  have 2: "2 * (x + 32 - 2 * y) * 2 * pi / 64 = 2 * (x - 2 * y) * 2 * pi / 64 + 2 * pi * of_int 1"
    by (simp add: field_simps)
  have 3: "4 * (x + (y + 16)) * 2 * pi / 64 = 4 * (x + y) * 2 * pi / 64 + 2 * pi * of_int 1"
    by (simp add: field_simps)
  have 4: "2 * (x - 2 * (y + 16)) * 2 * pi / 64 = 2 * (x - 2 * y) * 2 * pi / 64 + 2 * pi * of_int (- 1)"
    by (simp add: field_simps)
  show ?thesis
    unfolding atomic_func_def Let_def 1 2 3 4 sin_shift_turns by simp
qed

text \<open>
  C9. For all real \<open>x\<close> and \<open>y\<close>, \<open>atomic_func(x, y)\<close> lies in the closed interval from
  \<open>0\<close> to \<open>1\<close>: it is the product of two factors \<open>(1 + sin(.))/2\<close>, each between \<open>0\<close>
  and \<open>1\<close>.
\<close>

theorem atomic_func_unit_interval: "0 \<le> atomic_func x y \<and> atomic_func x y \<le> 1"
proof -
  let ?s = "4 * (x + y) * 2 * pi / 64"
  let ?t = "2 * (x - 2 * y) * 2 * pi / 64"
  have a: "0 \<le> 1 + sin ?s" "1 + sin ?s \<le> 2"
    using sin_ge_minus_one [of ?s] sin_le_one [of ?s] by linarith+
  have b: "0 \<le> 1 + sin ?t" "1 + sin ?t \<le> 2"
    using sin_ge_minus_one [of ?t] sin_le_one [of ?t] by linarith+
  have "0 \<le> (1 + sin ?s) * (1 + sin ?t)"
    using a(1) b(1) by (rule mult_nonneg_nonneg)
  moreover have "(1 + sin ?s) * (1 + sin ?t) \<le> 2 * 2"
    using a b by (intro mult_mono) auto
  ultimately show ?thesis by (simp add: atomic_func_def Let_def)
qed

section \<open>Properties of the aperture mask\<close>

lemma store_length: "length (A[i := (A ! i)[j := v]]) = length A"
  by simp

lemma store_nth:
  "A[i := (A ! i)[j := v]] ! i' ! j' =
     (if i' = i \<and> j' = j \<and> i < length A \<and> j < length (A ! i) then v else A ! i' ! j')"
  by (cases "i < length A"; cases "i' = i"; cases "j' = j"; cases "j < length (A ! i)")
     (auto simp: list_update_beyond not_less)

lemma store_row_length: "length (A[i := (A ! i)[j := v]] ! k) = length (A ! k)"
  by (cases "i < length A"; cases "k = i") (auto simp: list_update_beyond not_less)

lemma assign_at_length: "length (assign_at P idx v) = length P"
  unfolding assign_at_def by (induction idx arbitrary: P) auto

lemma assign_at_row_length: "length (assign_at P idx v ! k) = length (P ! k)"
  unfolding assign_at_def
proof (induction idx arbitrary: P)
  case Nil
  then show ?case by simp
next
  case (Cons a idx)
  obtain i j where a: "a = (i, j)" by (cases a)
  show ?case using Cons.IH[of "P[i := (P ! i)[j := v]]"] by (simp add: a store_row_length)
qed

lemma assign_at_nth:
  "assign_at P idx v ! i ! j =
     (if (i, j) \<in> set idx \<and> i < length P \<and> j < length (P ! i) then v else P ! i ! j)"
  unfolding assign_at_def
proof (induction idx arbitrary: P)
  case Nil
  then show ?case by simp
next
  case (Cons a idx)
  obtain i' j' where a: "a = (i', j')" by (cases a)
  let ?Q = "P[i' := (P ! i')[j' := v]]"
  have "fold (\<lambda>(i, j) A. A[i := (A ! i)[j := v]]) (a # idx) P ! i ! j
        = fold (\<lambda>(i, j) A. A[i := (A ! i)[j := v]]) idx ?Q ! i ! j"
    by (simp add: a)
  also have "\<dots> = (if (i, j) \<in> set idx \<and> i < length ?Q \<and> j < length (?Q ! i) then v else ?Q ! i ! j)"
    by (rule Cons.IH)
  also have "\<dots> = (if (i, j) \<in> set (a # idx) \<and> i < length P \<and> j < length (P ! i) then v else P ! i ! j)"
    by (auto simp: a store_nth store_row_length)
  finally show ?case .
qed

lemma np_where_set:
  "(i, j) \<in> set (np_where m) \<longleftrightarrow> i < length m \<and> j < length (m ! i) \<and> m ! i ! j"
  by (auto simp: np_where_def)

lemma map2_nth2:
  "i < length A \<Longrightarrow> i < length B \<Longrightarrow> j < length (A ! i) \<Longrightarrow> j < length (B ! i) \<Longrightarrow>
   map2 (\<lambda>ar br. map2 f ar br) A B ! i ! j = f (A ! i ! j) (B ! i ! j)"
  by simp

lemma meshgrid_nth:
  assumes "i < ny" "j < nx"
  shows "fst (meshgrid (farange nx) (farange ny)) ! i ! j = real j"
    and "snd (meshgrid (farange nx) (farange ny)) ! i ! j = real i"
  using assms by (simp_all add: meshgrid_def farange_def)

lemma meshgrid_shape:
  "length (fst (meshgrid x y)) = length y" "length (snd (meshgrid x y)) = length y"
  "i < length y \<Longrightarrow> length (fst (meshgrid x y) ! i) = length x"
  "i < length y \<Longrightarrow> length (snd (meshgrid x y) ! i) = length x"
  by (simp_all add: meshgrid_def)

lemma mask_spectrum_nth:
  assumes "i < 256" "j < 256"
  shows "mask_spectrum K ! i ! j =
     (if aperture (real j) (real i) 128 128 3 \<and> aperture (real j) (real i) 150 128 3
         \<and> i < length K \<and> j < length (K ! i) then 0 else K ! i ! j)"
proof -
  let ?X = "fst (meshgrid (farange 256) (farange 256))"
  let ?Y = "snd (meshgrid (farange 256) (farange 256))"
  let ?m = "grid_and (aperture_grid ?X ?Y 128 128 3) (aperture_grid ?X ?Y 150 128 3)"
  have len: "length (farange 256) = 256" by (simp add: farange_def)
  have lm: "length ?m = 256"
    by (simp add: grid_and_def aperture_grid_def meshgrid_shape len)
  have lmi: "length (?m ! i) = 256"
    using assms by (simp add: grid_and_def aperture_grid_def meshgrid_shape len)
  have mij: "?m ! i ! j = (aperture (real j) (real i) 128 128 3 \<and> aperture (real j) (real i) 150 128 3)"
    using assms meshgrid_nth [of i 256 j 256]
    by (simp add: grid_and_def aperture_grid_def meshgrid_shape len)
  have "mask_spectrum K = assign_at K (np_where ?m) 0"
    by (simp add: mask_spectrum_def Let_def split_beta)
  then show ?thesis
    using assms by (simp add: assign_at_nth np_where_set lm lmi mij)
qed

text \<open>
  C6. The mask is circular: \<open>aperture(X, Y, xoffset, yoffset, size)\<close> is true exactly when
  \<open>(X - xoffset)^2 + (Y - yoffset)^2 > size^2\<close>. So the masking step, on a 256 by 256
  spectrum \<open>K\<close>, sets to zero exactly the entries strictly outside both circles (radius 3
  about column 128 and about column 150 of row 128) and leaves every entry inside or on
  the boundary of either circle unchanged; the shape is kept.
\<close>

theorem aperture_mask_circular:
  assumes "length K = 256" and "\<forall>r \<in> set K. length r = 256" and "i < 256" and "j < 256"
  shows "(aperture X Y xoffset yoffset sz \<longleftrightarrow> (X - xoffset)\<^sup>2 + (Y - yoffset)\<^sup>2 > sz\<^sup>2) \<and>
         length (mask_spectrum K) = 256 \<and> length (mask_spectrum K ! i) = 256 \<and>
         mask_spectrum K ! i ! j =
           (if (real j - 128)\<^sup>2 + (real i - 128)\<^sup>2 > 3\<^sup>2 \<and> (real j - 150)\<^sup>2 + (real i - 128)\<^sup>2 > 3\<^sup>2
            then 0 else K ! i ! j)"
proof -
  have row: "length (K ! i) = 256"
    using assms(1,2,3) by simp
  have shape: "length (mask_spectrum K) = 256" "length (mask_spectrum K ! i) = 256"
    using assms(1) row
    by (simp_all add: mask_spectrum_def Let_def split_beta assign_at_length assign_at_row_length)
  show ?thesis
    using assms(1,3,4) row shape by (simp add: mask_spectrum_nth aperture_def)
qed

text \<open>
  On a spectrum of ones: the centre of the second circle and a point on the boundary of
  the first stay \<open>1\<close>, the next point to the right becomes \<open>0\<close>.
\<close>

theorem aperture_mask_circular_witness:
  "mask_spectrum (replicate 256 (replicate 256 1)) ! 128 ! 150 = 1 \<and>
   mask_spectrum (replicate 256 (replicate 256 1)) ! 128 ! 131 = 1 \<and>
   mask_spectrum (replicate 256 (replicate 256 1)) ! 128 ! 132 = 0 \<and>
   aperture 4 0 0 0 3 \<and> \<not> aperture 3 0 0 0 3"
  using aperture_mask_circular [of "replicate 256 (replicate 256 1)" 128 150 4 0 0 0 3]
        aperture_mask_circular [of "replicate 256 (replicate 256 1)" 128 131 3 0 0 0 3]
        aperture_mask_circular [of "replicate 256 (replicate 256 1)" 128 132 3 0 0 0 3]
  by simp

section \<open>Properties of the plotting helper\<close>


lemma plt_plot_ok:
  "length (atleast_1d y) = length x \<Longrightarrow>
     plt_plot x y lab w fig =
       Inr (fig\<lparr>lines := lines fig @ [\<lparr>xdata = x, ydata = atleast_1d y, label = lab, lw = w\<rparr>]\<rparr>)"
  by (simp add: plt_plot_def Let_def)


lemma order_ok_step:
  assumes "order_ok S xs fx c x n"
  shows "\<exists>apps'. orders_loop S xs fx c x (n # rest) apps fig =
           orders_loop S xs fx c x rest apps' (fig\<lparr>lines := lines fig @ [order_curve S xs fx c x n]\<rparr>)"
proof -
  from assms obtain ser where ser: "sp_series S fx xs c n = Returns ser"
    by (auto simp: order_ok_def split: res.splits)
  let ?app = "sp_removeO S ser"
  show ?thesis
  proof (cases "sp_is_Number S ?app")
    case True
    then show ?thesis
      using ser
      by (intro exI [of _ "apps(n \<mapsto> ?app)"])
         (simp add: approximation_values_def order_curve_def Let_def plt_plot_ok fill_def zeros_like_def
            map_replicate_const)
  next
    case False
    with assms ser obtain y where y: "sp_lambdify S xs ?app x = Returns y" "length (atleast_1d y) = length x"
      by (auto simp: order_ok_def split: res.splits)
    with False ser show ?thesis
      by (intro exI [of _ "apps(n \<mapsto> ?app)"])
         (simp add: approximation_values_def order_curve_def Let_def plt_plot_ok)
  qed
qed

lemma orders_loop_completes:
  "list_all (order_ok S xs fx c x) orders \<Longrightarrow>
     \<exists>apps'. orders_loop S xs fx c x orders apps fig =
        Returned apps' (fig\<lparr>lines := lines fig @ map (order_curve S xs fx c x) orders\<rparr>)"
proof (induction orders arbitrary: apps fig)
  case Nil
  then show ?case by simp
next
  case (Cons n orders)
  then have n: "order_ok S xs fx c x n" and rest: "list_all (order_ok S xs fx c x) orders" by simp_all
  from order_ok_step [OF n, of orders apps fig] obtain apps1 where
    s: "orders_loop S xs fx c x (n # orders) apps fig =
          orders_loop S xs fx c x orders apps1 (fig\<lparr>lines := lines fig @ [order_curve S xs fx c x n]\<rparr>)" ..
  from Cons.IH [OF rest, of apps1 "fig\<lparr>lines := lines fig @ [order_curve S xs fx c x n]\<rparr>"]
  show ?case unfolding s by simp
qed

lemma not_order_ok_stops:
  assumes "\<not> order_ok S xs fx c x n"
  shows "orders_loop S xs fx c x (n # rest) apps fig = Diverged \<or>
         (\<exists>e. orders_loop S xs fx c x (n # rest) apps fig = Raised e fig)"
proof (cases "sp_series S fx xs c n")
  case (Returns ser)
  let ?app = "sp_removeO S ser"
  from assms Returns have nn: "\<not> sp_is_Number S ?app"
    by (auto simp: order_ok_def)
  show ?thesis
  proof (cases "sp_lambdify S xs ?app x")
    case y: (Returns y)
    with assms Returns nn have "length (atleast_1d y) \<noteq> length x"
      by (auto simp: order_ok_def)
    then have "\<exists>e. plt_plot x y (Order_label n (filter (\<lambda>c. c \<noteq> CHR ''$'') (sp_latex S ?app))) None fig = Inl e"
      by (auto simp: plt_plot_def Let_def)
    with Returns nn y show ?thesis
      by (auto simp: approximation_values_def Let_def)
  qed (use Returns nn in \<open>simp_all add: approximation_values_def Let_def\<close>)
qed simp_all

lemma orders_loop_Returned:
  "orders_loop S xs fx c x orders apps fig = Returned apps' fig' \<Longrightarrow>
     list_all (order_ok S xs fx c x) orders \<and>
     fig' = fig\<lparr>lines := lines fig @ map (order_curve S xs fx c x) orders\<rparr>"
proof (induction orders arbitrary: apps fig)
  case Nil
  then show ?case by simp
next
  case (Cons n orders)
  have n: "order_ok S xs fx c x n"
    using not_order_ok_stops [of S xs fx c x n orders apps fig] Cons.prems by auto
  from order_ok_step [OF n, of orders apps fig] obtain apps1 where
    s: "orders_loop S xs fx c x (n # orders) apps fig =
          orders_loop S xs fx c x orders apps1 (fig\<lparr>lines := lines fig @ [order_curve S xs fx c x n]\<rparr>)" ..
  from Cons.IH [OF Cons.prems [unfolded s]] n show ?case by simp
qed

lemma orders_loop_Raised:
  "orders_loop S xs fx c x orders apps fig = Raised e fig' \<Longrightarrow>
     \<exists>k<length orders. list_all (order_ok S xs fx c x) (take k orders) \<and>
        \<not> order_ok S xs fx c x (orders ! k) \<and>
        fig' = fig\<lparr>lines := lines fig @ map (order_curve S xs fx c x) (take k orders)\<rparr>"
proof (induction orders arbitrary: apps fig)
  case Nil
  then show ?case by simp
next
  case (Cons n orders)
  show ?case
  proof (cases "order_ok S xs fx c x n")
    case False
    from not_order_ok_stops [OF False, of orders apps fig] Cons.prems have "fig' = fig" by auto
    with False show ?thesis by (intro exI [of _ 0]) simp
  next
    case True
    from order_ok_step [OF True, of orders apps fig] obtain apps1 where
      s: "orders_loop S xs fx c x (n # orders) apps fig =
            orders_loop S xs fx c x orders apps1 (fig\<lparr>lines := lines fig @ [order_curve S xs fx c x n]\<rparr>)" ..
    from Cons.IH [OF Cons.prems [unfolded s]] obtain k where
      k: "k < length orders" "list_all (order_ok S xs fx c x) (take k orders)"
         "\<not> order_ok S xs fx c x (orders ! k)"
         "fig' = fig\<lparr>lines := lines fig @ [order_curve S xs fx c x n]\<rparr>
                  \<lparr>lines := lines (fig\<lparr>lines := lines fig @ [order_curve S xs fx c x n]\<rparr>)
                             @ map (order_curve S xs fx c x) (take k orders)\<rparr>"
      by blast
    with True show ?thesis by (intro exI [of _ "Suc k"]) simp
  qed
qed

lemma orders_loop_not_Diverged:
  assumes "\<forall>e s a n. sp_series S e s a n \<noteq> Diverges" and "\<forall>s e v. sp_lambdify S s e v \<noteq> Diverges"
  shows "orders_loop S xs fx c x orders apps fig \<noteq> Diverged"
proof (induction orders arbitrary: apps fig)
  case Nil
  then show ?case by simp
next
  case (Cons n orders)
  show ?case
  proof (cases "order_ok S xs fx c x n")
    case True
    from order_ok_step [OF True, of orders apps fig] obtain apps1 where
      s: "orders_loop S xs fx c x (n # orders) apps fig =
            orders_loop S xs fx c x orders apps1 (fig\<lparr>lines := lines fig @ [order_curve S xs fx c x n]\<rparr>)" ..
    show ?thesis unfolding s by (rule Cons.IH)
  next
    case False
    show ?thesis
    proof (cases "sp_series S fx xs c n")
      case (Returns ser)
      then show ?thesis
        using assms False Cons.IH
        by (auto simp: Let_def approximation_values_def split: res.splits sum.splits)
    qed (use assms in simp_all)
  qed
qed

lemma call_Returns_callable: "call func a = Returns fx \<Longrightarrow> callable func"
  by (cases func) auto

lemma plot_taylor_completes:
  assumes sp: "sample_points xrange npts = Inr x"
    and ep: "expansion_point x0 x = Inr c"
    and fx: "call func (sp_Symbol S ''x'') = Returns fx"
    and y0: "sp_lambdify S (sp_Symbol S ''x'') fx x = Returns y0"
    and len: "length (atleast_1d y0) = length x"
    and ok: "list_all (order_ok S (sp_Symbol S ''x'') fx c x) orders"
  shows "plot_taylor_approximations S func x0 orders xrange yrange npts fig =
     Returned ()
       \<lparr>lines = lines fig @
          \<lparr>xdata = x, ydata = atleast_1d y0, label = Str_label (sp_str S fx), lw = Some 2\<rparr>
          # map (order_curve S (sp_Symbol S ''x'') fx c x) orders,
        ylim = (case yrange of None \<Rightarrow> ylim fig | Some r \<Rightarrow> Some r),
        grid = (\<not> grid fig),
        legend_alpha = Some 0.8\<rparr>"
proof -
  let ?xs = "sp_Symbol S ''x''"
  let ?fig1 = "fig\<lparr>lines := lines fig @ [\<lparr>xdata = x, ydata = atleast_1d y0, label = Str_label (sp_str S fx), lw = Some 2\<rparr>]\<rparr>"
  have c: "callable func" using fx by (rule call_Returns_callable)
  have p: "plt_plot x y0 (Str_label (sp_str S fx)) (Some 2) fig = Inr ?fig1"
    using len by (rule plt_plot_ok)
  from orders_loop_completes [OF ok, of Map.empty ?fig1] obtain apps where
    l: "orders_loop S ?xs fx c x orders Map.empty ?fig1 =
          Returned apps (?fig1\<lparr>lines := lines ?fig1 @ map (order_curve S ?xs fx c x) orders\<rparr>)" ..
  show ?thesis
    using c sp ep fx y0 p l
    by (cases yrange)
       (simp_all add: plot_taylor_approximations_def Let_def plt_legend_alpha_def plt_grid_def plt_ylim_def)
qed



lemma plot_taylor_not_Diverged:
  assumes "call func (sp_Symbol S ''x'') \<noteq> Diverges"
    and "\<forall>e s a n. sp_series S e s a n \<noteq> Diverges" and "\<forall>s e v. sp_lambdify S s e v \<noteq> Diverges"
  shows "plot_taylor_approximations S func x0 orders xrange yrange npts fig \<noteq> Diverged"
  using assms orders_loop_not_Diverged [OF assms(2,3)]
  by (auto simp: plot_taylor_approximations_def Let_def split: sum.splits res.splits run.splits)




subsection \<open>The concrete calls\<close>

lemma upt_0_3: "[0..<3] = [0, 1, 2]"
  by (simp add: upt_rec)

lemma example_samples:
  "sample_points (Tuple_or_list Py_tuple [PyInt 0, PyInt 1]) 3 = Inr [0, 1/2, 1]"
  by (simp add: sample_points_def seq_index_def linspace_def upt_0_3)



lemma example_orders_ok:
  "list_all (order_ok mini_sympy (Symbol ''x'') (Add (Exact 1) (Add (Symbol ''x'') (Power (Symbol ''x'') 2)))
          (Float_num 0) [0, 1/2, 1]) [1, 2]"
  by (simp add: order_ok_def mini_sympy_def Let_def numeral_2_eq_2
        add_expr_def mul_expr_def pow_expr_def mk_num_def)

lemma str_nat_1: "str_nat (Suc 0) = ''1''"
  by (simp add: str_nat.simps)

lemma str_nat_200: "str_nat 200 = ''200''"
  by (simp add: str_nat.simps)

lemma default_samples:
  "sample_points (Tuple_or_list Py_tuple [PyInt 0, PyInt 1]) 200 = Inr (map (\<lambda>i. real i / 199) [0..<200])"
  by (simp add: sample_points_def seq_index_def linspace_def)

subsection \<open>The input check\<close>



subsection \<open>The figure is shared state\<close>




subsection \<open>Constant approximations\<close>

text \<open>
  C7, where the code fails it. The claim has every approximation plotted on the sample
  points, a constant one as a constant-filled array. The code fills the array only for
  an approximation that is a sympy Number. An approximation that is constant without
  being a Number goes to \<open>lambdify\<close>, which returns one scalar for it, and \<open>plt.plot\<close>
  then raises: with more or fewer than one sample point the call ends in a ValueError
  after plotting \<open>func\<close> alone, and no approximation is plotted.
\<close>

theorem plot_taylor_approximations_constant_not_Number:
  assumes sp: "sample_points xrange npts = Inr x"
    and ep: "expansion_point x0 x = Inr c"
    and fx: "call func (sp_Symbol S ''x'') = Returns fx"
    and y0: "sp_lambdify S (sp_Symbol S ''x'') fx x = Returns y0"
    and len: "length (atleast_1d y0) = length x"
    and ser: "sp_series S fx (sp_Symbol S ''x'') c n = Returns ser"
    and nn: "\<not> sp_is_Number S (sp_removeO S ser)"
    and sc: "sp_lambdify S (sp_Symbol S ''x'') (sp_removeO S ser) x = Returns (Scalar v)"
    and l1: "length x \<noteq> 1"
  shows "plot_taylor_approximations S func x0 (n # rest) xrange yrange npts fig =
     Raised (ValueError (''x and y must have same first dimension, but have shapes (''
                          @ str_nat (length x) @ '',) and (1,)''))
       (fig\<lparr>lines := lines fig @
          [\<lparr>xdata = x, ydata = atleast_1d y0, label = Str_label (sp_str S fx), lw = Some 2\<rparr>]\<rparr>)"
proof -
  let ?xs = "sp_Symbol S ''x''"
  let ?fig1 = "fig\<lparr>lines := lines fig @ [\<lparr>xdata = x, ydata = atleast_1d y0, label = Str_label (sp_str S fx), lw = Some 2\<rparr>]\<rparr>"
  have c: "callable func" using fx by (rule call_Returns_callable)
  have p: "plt_plot x y0 (Str_label (sp_str S fx)) (Some 2) fig = Inr ?fig1"
    using len by (rule plt_plot_ok)
  have l: "orders_loop S ?xs fx c x (n # rest) Map.empty ?fig1 =
     Raised (ValueError (''x and y must have same first dimension, but have shapes (''
                          @ str_nat (length x) @ '',) and (1,)'')) ?fig1"
    using ser nn sc l1
    by (simp add: approximation_values_def Let_def plt_plot_def str_nat_1)
  show ?thesis
    using c sp ep fx y0 p l
    by (simp add: plot_taylor_approximations_def Let_def)
qed

text \<open>
  The cosine about the integer \<open>1\<close> to order 1, on the default 200 points: the
  approximation is \<open>cos(1)\<close>, and the call raises.
\<close>

theorem plot_taylor_approximations_constant_not_Number_witness:
  "cos_call empty_figure =
     Raised (ValueError ''x and y must have same first dimension, but have shapes (200,) and (1,)'')
       \<lparr>lines = [\<lparr>xdata = map (\<lambda>i. real i / 199) [0..<200],
                   ydata = map (\<lambda>i. cos (real i / 199)) [0..<200],
                   label = Str_label ''f(x)'', lw = Some 2\<rparr>],
        ylim = None, grid = False, legend_alpha = None\<rparr>"
proof -
  let ?X = "map (\<lambda>i. real i / 199) [0..<200]"
  have pre:
    "expansion_point (Some (Int_num 1)) ?X = Inr (Int_num 1)"
    "call cos_func (sp_Symbol mini_sympy ''x'') = Returns (Cos (Symbol ''x''))"
    "sp_lambdify mini_sympy (sp_Symbol mini_sympy ''x'') (Cos (Symbol ''x'')) ?X
       = Returns (Array (map (\<lambda>i. cos (real i / 199)) [0..<200]))"
    "length (atleast_1d (Array (map (\<lambda>i. cos (real i / 199)) [0..<200]))) = length ?X"
    "sp_series mini_sympy (Cos (Symbol ''x'')) (sp_Symbol mini_sympy ''x'') (Int_num 1) 1 = Returns (Cos (Exact 1))"
    "\<not> sp_is_Number mini_sympy (sp_removeO mini_sympy (Cos (Exact 1)))"
    "sp_lambdify mini_sympy (sp_Symbol mini_sympy ''x'') (sp_removeO mini_sympy (Cos (Exact 1))) ?X
       = Returns (Scalar (cos 1))"
    "length ?X \<noteq> 1"
    by (simp_all add: expansion_point_def cos_func_def mini_sympy_def cos_expr_def
          add_expr_def mul_expr_def pow_expr_def mk_num_def comp_def)
  from plot_taylor_approximations_constant_not_Number [OF default_samples pre, of "[]" None empty_figure]
  show ?thesis
    by (simp add: cos_call_def empty_figure_def mini_sympy_def str_nat_200)
qed

subsection \<open>Every call returns, if what it calls does\<close>

text \<open>
  C8, as the code has it. \<open>DFT_slow\<close> returns for every finite input: the error of the
  coercion, or an array as long as the input, computed from a matrix of \<open>N\<close> rows of
  \<open>N\<close> entries. The one loop of \<open>plot_taylor_approximations\<close> runs once per entry of
  \<open>orders\<close>: when it returns it has plotted one curve for every entry, when it raises
  fewer. The helper and its loop return or raise whenever the call of \<open>func\<close> and the
  sympy calls do, and the helper returns normally on the inputs of C4. It does not
  return for every callable \<open>func\<close>: once the samples and the expansion point are there
  it calls \<open>func\<close>, and if that call does not return, neither does the helper.
\<close>

theorem helpers_run_to_completion:
  "(call func (sp_Symbol S ''x'') \<noteq> Diverges \<and> (\<forall>e s a n. sp_series S e s a n \<noteq> Diverges) \<and>
    (\<forall>s e v. sp_lambdify S s e v \<noteq> Diverges) \<longrightarrow>
      plot_taylor_approximations S func x0 orders xrange yrange npts fig \<noteq> Diverged \<and>
      orders_loop S xs gx a xv orders apps fig \<noteq> Diverged) \<and>
   (sample_points xrange npts = Inr x \<and> expansion_point x0 x = Inr c \<and>
    call func (sp_Symbol S ''x'') = Returns fx \<and>
    sp_lambdify S (sp_Symbol S ''x'') fx x = Returns y0 \<and> length (atleast_1d y0) = length x \<and>
    list_all (order_ok S (sp_Symbol S ''x'') fx c x) orders \<longrightarrow>
      (\<exists>fig'. plot_taylor_approximations S func x0 orders xrange yrange npts fig = Returned () fig' \<and>
               length (lines fig') = length (lines fig) + 1 + length orders)) \<and>
   (callable func \<and> sample_points xrange npts = Inr x \<and> expansion_point x0 x = Inr c \<and>
    call func (sp_Symbol S ''x'') = Diverges \<longrightarrow>
      plot_taylor_approximations S func x0 orders xrange yrange npts fig = Diverged) \<and>
   (\<forall>apps' fig'. orders_loop S xs gx a xv orders apps fig = Returned apps' fig' \<longrightarrow>
      length (lines fig') = length (lines fig) + length orders) \<and>
   (\<forall>e fig'. orders_loop S xs gx a xv orders apps fig = Raised e fig' \<longrightarrow>
      length (lines fig') < length (lines fig) + length orders) \<and>
   (\<forall>xf. asarray_float arr = Inr xf \<longrightarrow> (\<exists>X. DFT_slow arr = Inr X \<and> length X = length xf)) \<and>
   (\<forall>e. asarray_float arr = Inl e \<longrightarrow> DFT_slow arr = Inl e) \<and>
   length (dft_matrix N) = N \<and> (\<forall>row \<in> set (dft_matrix N). length row = N)"
proof (intro conjI impI allI ballI)
  assume nd: "call func (sp_Symbol S ''x'') \<noteq> Diverges \<and> (\<forall>e s a n. sp_series S e s a n \<noteq> Diverges) \<and>
    (\<forall>s e v. sp_lambdify S s e v \<noteq> Diverges)"
  then show "plot_taylor_approximations S func x0 orders xrange yrange npts fig \<noteq> Diverged"
    by (intro plot_taylor_not_Diverged) simp_all
  from nd show "orders_loop S xs gx a xv orders apps fig \<noteq> Diverged"
    by (intro orders_loop_not_Diverged) simp_all
next
  show "length (dft_matrix N) = N"
    by (simp add: dft_matrix_def arange_def Let_def)
next
  assume "sample_points xrange npts = Inr x \<and> expansion_point x0 x = Inr c \<and>
      call func (sp_Symbol S ''x'') = Returns fx \<and>
      sp_lambdify S (sp_Symbol S ''x'') fx x = Returns y0 \<and> length (atleast_1d y0) = length x \<and>
      list_all (order_ok S (sp_Symbol S ''x'') fx c x) orders"
  then have "plot_taylor_approximations S func x0 orders xrange yrange npts fig =
        Returned ()
          \<lparr>lines = lines fig @
             \<lparr>xdata = x, ydata = atleast_1d y0, label = Str_label (sp_str S fx), lw = Some 2\<rparr>
             # map (order_curve S (sp_Symbol S ''x'') fx c x) orders,
           ylim = (case yrange of None \<Rightarrow> ylim fig | Some r \<Rightarrow> Some r),
           grid = (\<not> grid fig),
           legend_alpha = Some 0.8\<rparr>"
    by (intro plot_taylor_completes) simp_all
  then show "\<exists>fig'. plot_taylor_approximations S func x0 orders xrange yrange npts fig = Returned () fig' \<and>
                 length (lines fig') = length (lines fig) + 1 + length orders"
    by simp
next
  assume "callable func \<and> sample_points xrange npts = Inr x \<and> expansion_point x0 x = Inr c \<and>
    call func (sp_Symbol S ''x'') = Diverges"
  then show "plot_taylor_approximations S func x0 orders xrange yrange npts fig = Diverged"
    by (simp add: plot_taylor_approximations_def Let_def)
next
  fix apps' fig'
  assume "orders_loop S xs gx a xv orders apps fig = Returned apps' fig'"
  from orders_loop_Returned [OF this]
  show "length (lines fig') = length (lines fig) + length orders" by simp
next
  fix e fig'
  assume "orders_loop S xs gx a xv orders apps fig = Raised e fig'"
  from orders_loop_Raised [OF this]
  show "length (lines fig') < length (lines fig) + length orders" by auto
next
  fix xf assume "asarray_float arr = Inr xf"
  then show "\<exists>X. DFT_slow arr = Inr X \<and> length X = length xf"
    by (simp add: DFT_slow_Inr length_dot_dft_matrix)
next
  fix e assume "asarray_float arr = Inl e"
  then show "DFT_slow arr = Inl e" by (rule DFT_slow_Inl)
next
  fix row assume "row \<in> set (dft_matrix N)"
  then show "length row = N"
    by (auto simp: dft_matrix_def arange_def Let_def)
qed

theorem helpers_run_to_completion_witness:
  "example_call empty_figure \<noteq> Diverged \<and>
   (\<exists>fig'. example_call empty_figure = Returned () fig' \<and>
            length (lines fig') = length (lines empty_figure) + 1 + length [1, 2 :: int]) \<and>
   plot_taylor_approximations mini_sympy hanging_func None [1, 2]
      (Tuple_or_list Py_tuple [PyInt 0, PyInt 1]) None 3 empty_figure = Diverged \<and>
   orders_loop mini_sympy (Symbol ''x'') (Cos (Symbol ''x'')) (Int_num 1) [0, 1/2, 1] [1, 2]
      Map.empty empty_figure \<noteq> Diverged \<and>
   (\<exists>X. DFT_slow (Sequence [PyInt 1, PyFloat 2]) = Inr X \<and> length X = 2) \<and>
   length (dft_matrix 2) = 2 \<and> list_all (\<lambda>row. length row = 2) (dft_matrix 2)"
proof -
  let ?E = "Add (Exact 1) (Add (Symbol ''x'') (Power (Symbol ''x'') 2))"
  have nd: "call example_func (sp_Symbol mini_sympy ''x'') \<noteq> Diverges \<and>
      (\<forall>e s a n. sp_series mini_sympy e s a n \<noteq> Diverges) \<and>
      (\<forall>s e v. sp_lambdify mini_sympy s e v \<noteq> Diverges)"
    by (simp add: example_func_def mini_sympy_def)
  have pre: "sample_points (Tuple_or_list Py_tuple [PyInt 0, PyInt 1]) 3 = Inr [0, 1/2, 1] \<and>
      expansion_point None [0, 1/2, 1] = Inr (Float_num 0) \<and>
      call example_func (sp_Symbol mini_sympy ''x'') = Returns ?E \<and>
      sp_lambdify mini_sympy (sp_Symbol mini_sympy ''x'') ?E [0, 1/2, 1] = Returns (Array [1, 7/4, 3]) \<and>
      length (atleast_1d (Array [1, 7/4, 3])) = length [0, 1/2, 1 :: real] \<and>
      list_all (order_ok mini_sympy (sp_Symbol mini_sympy ''x'') ?E (Float_num 0) [0, 1/2, 1]) [1, 2]"
    using example_orders_ok
    by (simp add: example_samples expansion_point_def example_func_def mini_sympy_def
          add_expr_def pow_expr_def power2_eq_square)
  have hang: "callable hanging_func \<and>
      sample_points (Tuple_or_list Py_tuple [PyInt 0, PyInt 1]) 3 = Inr [0, 1/2, 1] \<and>
      expansion_point None [0, 1/2, 1] = Inr (Float_num 0) \<and>
      call hanging_func (sp_Symbol mini_sympy ''x'') = Diverges"
    by (simp add: example_samples expansion_point_def hanging_func_def)
  have a: "asarray_float (Sequence [PyInt 1, PyFloat 2]) = Inr [1, 2]" by simp
  note t = helpers_run_to_completion
     [where S = mini_sympy and func = example_func
        and ?x0.0 = None and orders = "[1, 2]" and xrange = "Tuple_or_list Py_tuple [PyInt 0, PyInt 1]"
        and yrange = None and npts = 3 and fig = empty_figure
        and x = "[0, 1/2, 1]" and c = "Float_num 0" and fx = ?E and ?y0.0 = "Array [1, 7/4, 3]"
        and xs = "Symbol ''x''" and gx = "Cos (Symbol ''x'')" and a = "Int_num 1" and xv = "[0, 1/2, 1]"
        and apps = Map.empty and arr = "Sequence [PyInt 1, PyFloat 2]" and N = 2]
  note h = helpers_run_to_completion
     [where S = mini_sympy and func = hanging_func
        and ?x0.0 = None and orders = "[1, 2]" and xrange = "Tuple_or_list Py_tuple [PyInt 0, PyInt 1]"
        and yrange = None and npts = 3 and fig = empty_figure
        and x = "[0, 1/2, 1]" and c = "Float_num 0"]
  note t1 = t [THEN conjunct1, rule_format, OF nd]
    and t2 = t [THEN conjunct2, THEN conjunct1, rule_format, OF pre]
    and h3 = h [THEN conjunct2, THEN conjunct2, THEN conjunct1, rule_format, OF hang]
    and t6 = t [THEN conjunct2, THEN conjunct2, THEN conjunct2, THEN conjunct2, THEN conjunct2,
                THEN conjunct1, rule_format, OF a]
    and t8 = t [THEN conjunct2, THEN conjunct2, THEN conjunct2, THEN conjunct2, THEN conjunct2,
                THEN conjunct2, THEN conjunct2]
  from t1 have 1: "example_call empty_figure \<noteq> Diverged"
    and 3: "orders_loop mini_sympy (Symbol ''x'') (Cos (Symbol ''x'')) (Int_num 1) [0, 1/2, 1] [1, 2]
      Map.empty empty_figure \<noteq> Diverged"
    by (simp_all add: example_call_def)
  from t2 have 2: "\<exists>fig'. example_call empty_figure = Returned () fig' \<and>
            length (lines fig') = length (lines empty_figure) + 1 + length [1, 2 :: int]"
    unfolding example_call_def .
  from t6 have 4: "\<exists>X. DFT_slow (Sequence [PyInt 1, PyFloat 2]) = Inr X \<and> length X = 2"
    by (simp add: numeral_2_eq_2)
  from t8 have 5: "length (dft_matrix 2) = 2 \<and> list_all (\<lambda>row. length row = 2) (dft_matrix 2)"
    unfolding list_all_iff .
  from 1 2 h3 3 4 5 show ?thesis by blast
qed

text \<open>
  The claim as written has the helper terminate for every callable \<open>func\<close>. A callable
  that never returns is called once, for the expression to plot, and the helper does not
  return either.
\<close>

theorem helpers_run_to_completion_counterexample:
  "callable hanging_func \<and>
   plot_taylor_approximations mini_sympy hanging_func None [2, 4]
     (Tuple_or_list Py_tuple [PyInt 0, PyInt 1]) None 200 empty_figure = Diverged"
  by (simp add: hanging_func_def plot_taylor_approximations_def default_samples expansion_point_def Let_def)

end
